theory Spec2Isabelle
  imports Complex_Main "HOL-Library.Monad_Syntax"
begin

section \<open>Data model (types.ts)\<close>

text \<open>
  The three interfaces of \<^verbatim>\<open>types.ts\<close>. A field that may be \<^verbatim>\<open>null\<close> is an
  option. The field \<^verbatim>\<open>id\<close> is written \<open>album_id\<close> / \<open>genre_id\<close> (\<open>id\<close> is the
  identity function of HOL), the album's \<^verbatim>\<open>genres\<close> is \<open>album_genres\<close> and the
  collection's \<^verbatim>\<open>albums\<close> is \<open>data_albums\<close>, since the component's refs
  \<^verbatim>\<open>genres\<close> and \<^verbatim>\<open>albums\<close> keep these names below. Numbers that hold
  identifiers and counts are integers.
\<close>

record Album =
  album_id :: int
  title :: string
  artist :: string
  cover_url :: string
  preview_url :: string
  year :: "string option"
  genre :: "string option"
  album_genres :: "string list option"
  deezer_id :: int
  deezer_link :: "string option"
  nb_tracks :: "int option"

record AlbumCollection =
  data_albums :: "Album list"
  data_total :: int

record Genre =
  genre_id :: int
  name :: string

section \<open>The API client (api.ts)\<close>

text \<open>
  A promise settles with a value or is rejected with an error message.
\<close>

datatype 'a settled = Resolved 'a | Rejected string

text \<open>
  \<^verbatim>\<open>`${n}`\<close> and \<^verbatim>\<open>Array.prototype.join\<close> turn a number into a string. A
  JavaScript number is a double. An integer of size at most \<open>2^53 - 1\<close>
  (\<^verbatim>\<open>Number.MAX_SAFE_INTEGER\<close>) is a double and is printed as its decimal numeral,
  with a minus sign when negative. Any other number is printed differently (the
  shortest digits that read back as the same double, a fraction, the exponent notation
  from \<open>10^21\<close> on), and is not a number of this model: \<open>number_to_string\<close> gives
  \<open>None\<close> for it, and so does every URL built from it.
\<close>

definition is_safe_integer :: "int \<Rightarrow> bool" where
  "is_safe_integer n = (- 9007199254740991 \<le> n \<and> n \<le> 9007199254740991)"

definition digit_char :: "nat \<Rightarrow> char" where
  "digit_char d = ''0123456789'' ! d"

fun show_nat :: "nat \<Rightarrow> string" where
  "show_nat n = (if n < 10 then [digit_char n] else show_nat (n div 10) @ [digit_char (n mod 10)])"

declare show_nat.simps [simp del]

definition decimal :: "int \<Rightarrow> string" where
  "decimal n = (if n < 0 then CHR ''-'' # show_nat (nat (- n)) else show_nat (nat n))"

definition number_to_string :: "int \<Rightarrow> string option" where
  "number_to_string n = (if is_safe_integer n then Some (decimal n) else None)"

text \<open>
  \<^verbatim>\<open>genreIds.join(',')\<close>: every element is turned into a string, and the strings
  are put together with a comma between two neighbours.
\<close>

fun join_strings :: "string \<Rightarrow> string list \<Rightarrow> string" where
  "join_strings sep [] = []"
| "join_strings sep [x] = x"
| "join_strings sep (x # y # ys) = x @ sep @ join_strings sep (y # ys)"

definition join_comma :: "int list \<Rightarrow> string option" where
  "join_comma xs = map_option (join_strings '','') (those (map number_to_string xs))"

text \<open>
  The URL \<^verbatim>\<open>fetchRandomAlbums\<close> builds and hands to \<^verbatim>\<open>fetch\<close>. An argument left
  out (\<^verbatim>\<open>undefined\<close>) is \<open>None\<close>; \<^verbatim>\<open>API_BASE\<close> is the module's constant, read from
  the environment, and is a parameter here. The result is \<open>None\<close> when a number that
  goes into the URL is not a safe integer.
\<close>

definition fetchRandomAlbums_url :: "string \<Rightarrow> int \<Rightarrow> int list option \<Rightarrow> int option \<Rightarrow> string option" where
  "fetchRandomAlbums_url API_BASE count genreIds minTracks =
     do {
       c \<leftarrow> number_to_string count;
       let url = API_BASE @ ''/albums/random?count='' @ c;
       url \<leftarrow> (case genreIds of
                 Some gs \<Rightarrow>
                   if length gs > 0
                   then do { joined \<leftarrow> join_comma gs; Some (url @ ''&genres='' @ joined) }
                   else Some url
               | None \<Rightarrow> Some url);
       url \<leftarrow> (case minTracks of
                 Some m \<Rightarrow>
                   if m > 0
                   then do { mt \<leftarrow> number_to_string m; Some (url @ ''&min_tracks='' @ mt) }
                   else Some url
               | None \<Rightarrow> Some url);
       Some url
     }"

definition fetchGenres_url :: "string \<Rightarrow> string" where
  "fetchGenres_url API_BASE = API_BASE @ ''/genres''"

text \<open>
  What the two functions do with the response: a response that is not \<^verbatim>\<open>ok\<close> throws,
  an \<^verbatim>\<open>ok\<close> one returns its body; a rejection of \<^verbatim>\<open>fetch\<close> itself passes through.
\<close>

record 'a response =
  ok :: bool
  json :: 'a

definition fetchRandomAlbums_result :: "AlbumCollection response settled \<Rightarrow> AlbumCollection settled" where
  "fetchRandomAlbums_result r =
     (case r of
        Rejected e \<Rightarrow> Rejected e
      | Resolved resp \<Rightarrow> if \<not> ok resp then Rejected ''Failed to fetch albums'' else Resolved (json resp))"

definition fetchGenres_result :: "Genre list response settled \<Rightarrow> Genre list settled" where
  "fetchGenres_result r =
     (case r of
        Rejected e \<Rightarrow> Rejected e
      | Resolved resp \<Rightarrow> if \<not> ok resp then Rejected ''Failed to fetch genres'' else Resolved (json resp))"

section \<open>The component state (AlbumCrate.vue, script setup)\<close>

text \<open>
  The audio element behind \<^verbatim>\<open>audioRef\<close>, as far as the script drives it: the source
  it is bound to, the volume, whether it is paused and the playback position.
  \<^verbatim>\<open>play()\<close> clears \<open>paused\<close> and \<^verbatim>\<open>pause()\<close> sets it; a rejection of the promise
  \<^verbatim>\<open>play()\<close> returns is caught and ignored by the script.
\<close>

record HTMLAudioElement =
  src :: string
  volume :: real
  paused :: bool
  currentTime :: real

text \<open>
  One field per \<^verbatim>\<open>ref\<close> of the script, under the ref's name. Two fields record what
  the script hands to the runtime: \<open>timers\<close> holds the delay of every pending
  \<^verbatim>\<open>setTimeout(playPreview, 150)\<close>, oldest first, and \<open>requests\<close> the URL of every
  \<^verbatim>\<open>fetch\<close> issued so far, oldest first (\<open>None\<close> for a URL built from a number that
  is not a safe integer). Pointer coordinates are real numbers.
\<close>

record crate =
  albums :: "Album list"
  currentIndex :: int
  isLoading :: bool
  error :: "string option"
  audioRef :: "HTMLAudioElement option"
  isPlaying :: bool
  isDragging :: bool
  dragStartX :: real
  dragOffset :: real
  hasInteracted :: bool
  genres :: "Genre list"
  selectedGenres :: "int list"
  showGenreFilter :: bool
  showOnlyAlbums :: bool
  timers :: "nat list"
  requests :: "string option list"

text \<open>The refs as \<^verbatim>\<open>script setup\<close> creates them; the template ref is not bound yet.\<close>

definition script_setup :: crate where
  "script_setup =
     \<lparr> albums = [], currentIndex = 0, isLoading = True, error = None,
       audioRef = None, isPlaying = False, isDragging = False, dragStartX = 0,
       dragOffset = 0, hasInteracted = False, genres = [], selectedGenres = [],
       showGenreFilter = False, showOnlyAlbums = False, timers = [], requests = [] \<rparr>"

text \<open>
  \<^verbatim>\<open>albums.value[currentIndex.value]\<close>: an index outside the array reads
  \<^verbatim>\<open>undefined\<close>, which is \<open>None\<close>.
\<close>

definition currentAlbum :: "crate \<Rightarrow> Album option" where
  "currentAlbum s =
     (if 0 \<le> currentIndex s \<and> currentIndex s < int (length (albums s))
      then Some (albums s ! nat (currentIndex s)) else None)"

subsection \<open>Playback\<close>

definition playPreview :: "crate \<Rightarrow> crate" where
  "playPreview s =
     (case currentAlbum s of
        None \<Rightarrow> s
      | Some album \<Rightarrow>
          (case audioRef s of
             None \<Rightarrow> s
           | Some a \<Rightarrow>
               s\<lparr> hasInteracted := True,
                  audioRef := Some (a\<lparr> src := preview_url album, volume := 1 / 2, paused := False \<rparr>),
                  isPlaying := True \<rparr>))"

definition stopPreview :: "crate \<Rightarrow> crate" where
  "stopPreview s =
     (case audioRef s of
        None \<Rightarrow> s
      | Some a \<Rightarrow> s\<lparr> audioRef := Some (a\<lparr> paused := True, currentTime := 0 \<rparr>), isPlaying := False \<rparr>)"

subsection \<open>Genre filter\<close>

text \<open>
  \<^verbatim>\<open>indexOf\<close> gives the first position of the value, or \<open>-1\<close>;
  \<^verbatim>\<open>splice(index, 1)\<close> removes the element at a position, counting a negative
  position from the end.
\<close>

fun indexOf :: "int list \<Rightarrow> int \<Rightarrow> int" where
  "indexOf [] x = - 1"
| "indexOf (y # ys) x =
     (if y = x then 0 else (let i = indexOf ys x in if i = - 1 then - 1 else i + 1))"

definition splice1 :: "int list \<Rightarrow> int \<Rightarrow> int list" where
  "splice1 xs i =
     (let len = int (length xs);
          start = (if i < 0 then max (len + i) 0 else min i len)
      in take (nat start) xs @ drop (Suc (nat start)) xs)"

definition toggleGenre :: "int \<Rightarrow> crate \<Rightarrow> crate" where
  "toggleGenre genreId s =
     (let s1 = stopPreview s;
          index = indexOf (selectedGenres s1) genreId
      in if index = - 1
         then s1\<lparr> selectedGenres := selectedGenres s1 @ [genreId] \<rparr>
         else s1\<lparr> selectedGenres := splice1 (selectedGenres s1) index \<rparr>)"

definition clearGenreFilter :: "crate \<Rightarrow> crate" where
  "clearGenreFilter s = s\<lparr> selectedGenres := [] \<rparr>"

subsection \<open>Loading\<close>

text \<open>
  An \<^verbatim>\<open>async\<close> function runs up to its \<^verbatim>\<open>await\<close>, and resumes when the promise
  settles; other handlers may run in between. \<open>loadAlbums_begin\<close> is the part before
  the \<^verbatim>\<open>await\<close> (it ends by issuing the request), \<open>loadAlbums_resume\<close> the part after
  it, and \<open>loadAlbums\<close> the run in which nothing else is handled in between.
\<close>

definition loadAlbums_begin :: "string \<Rightarrow> crate \<Rightarrow> crate" where
  "loadAlbums_begin API_BASE s =
     (let s1 = stopPreview s;
          s2 = s1\<lparr> isLoading := True, error := None, showGenreFilter := False \<rparr>;
          genreIds = (if length (selectedGenres s2) > 0 then Some (selectedGenres s2) else None);
          minTracks = (if showOnlyAlbums s2 then Some 2 else None)
      in s2\<lparr> requests := requests s2 @ [fetchRandomAlbums_url API_BASE 10 genreIds minTracks] \<rparr>)"

definition loadAlbums_resume :: "AlbumCollection settled \<Rightarrow> crate \<Rightarrow> crate" where
  "loadAlbums_resume r s =
     (case r of
        Resolved data \<Rightarrow> s\<lparr> albums := data_albums data, currentIndex := 0, isLoading := False \<rparr>
      | Rejected e \<Rightarrow>
          s\<lparr> error := Some ''Failed to load albums. Make sure the backend is running.'',
             isLoading := False \<rparr>)"

definition loadAlbums :: "string \<Rightarrow> AlbumCollection settled \<Rightarrow> crate \<Rightarrow> crate" where
  "loadAlbums API_BASE r s = loadAlbums_resume r (loadAlbums_begin API_BASE s)"

definition loadGenres_begin :: "string \<Rightarrow> crate \<Rightarrow> crate" where
  "loadGenres_begin API_BASE s = s\<lparr> requests := requests s @ [Some (fetchGenres_url API_BASE)] \<rparr>"

definition loadGenres_resume :: "Genre list settled \<Rightarrow> crate \<Rightarrow> crate" where
  "loadGenres_resume r s = (case r of Resolved gs \<Rightarrow> s\<lparr> genres := gs \<rparr> | Rejected e \<Rightarrow> s)"

subsection \<open>Navigation\<close>

text \<open>
  \<open>goToNext_trace\<close> lists the states the function passes through, one per statement:
  the state it is called in, the state after \<^verbatim>\<open>stopPreview()\<close>, after
  \<^verbatim>\<open>currentIndex.value++\<close>, and after the \<^verbatim>\<open>setTimeout\<close> when there is one.
  \<open>goToNext\<close> is the state it returns in.
\<close>

definition goToNext_trace :: "crate \<Rightarrow> crate list" where
  "goToNext_trace s =
     (if currentIndex s < int (length (albums s)) - 1
      then (let s1 = stopPreview s;
                s2 = s1\<lparr> currentIndex := currentIndex s1 + 1 \<rparr>
            in if hasInteracted s2
               then [s, s1, s2, s2\<lparr> timers := timers s2 @ [150] \<rparr>]
               else [s, s1, s2])
      else [s])"

definition goToNext :: "crate \<Rightarrow> crate" where
  "goToNext s = last (goToNext_trace s)"

definition goToPrev_trace :: "crate \<Rightarrow> crate list" where
  "goToPrev_trace s =
     (if currentIndex s > 0
      then (let s1 = stopPreview s;
                s2 = s1\<lparr> currentIndex := currentIndex s1 - 1 \<rparr>
            in if hasInteracted s2
               then [s, s1, s2, s2\<lparr> timers := timers s2 @ [150] \<rparr>]
               else [s, s1, s2])
      else [s])"

definition goToPrev :: "crate \<Rightarrow> crate" where
  "goToPrev s = last (goToPrev_trace s)"

text \<open>The callback of a pending timer: the oldest one fires.\<close>

definition timer_fired :: "crate \<Rightarrow> crate" where
  "timer_fired s = (case timers s of [] \<Rightarrow> s | t # ts \<Rightarrow> playPreview (s\<lparr> timers := ts \<rparr>))"

definition handleKeydown :: "string \<Rightarrow> crate \<Rightarrow> crate" where
  "handleKeydown key s =
     (if key = ''ArrowRight'' then goToNext s
      else if key = ''ArrowLeft'' then goToPrev s
      else if key = '' '' then (if isPlaying s then stopPreview s else playPreview s)
      else s)"

subsection \<open>Drag gesture\<close>

text \<open>The argument is the \<^verbatim>\<open>clientX\<close> the handler reads from the event.\<close>

definition handleDragStart :: "real \<Rightarrow> crate \<Rightarrow> crate" where
  "handleDragStart clientX s = s\<lparr> isDragging := True, dragStartX := clientX, dragOffset := 0 \<rparr>"

definition handleDragMove :: "real \<Rightarrow> crate \<Rightarrow> crate" where
  "handleDragMove clientX s =
     (if \<not> isDragging s then s else s\<lparr> dragOffset := clientX - dragStartX s \<rparr>)"

definition handleDragEnd :: "crate \<Rightarrow> crate" where
  "handleDragEnd s =
     (if \<not> isDragging s then s
      else (let s1 = s\<lparr> isDragging := False \<rparr>;
                threshold = 80;
                s2 = (if dragOffset s1 > threshold then goToPrev s1
                      else if dragOffset s1 < - threshold then goToNext s1
                      else s1)
            in s2\<lparr> dragOffset := 0 \<rparr>))"

subsection \<open>Handlers written in the template, and the mount hook\<close>

definition audio_ended :: "crate \<Rightarrow> crate" where
  "audio_ended s = s\<lparr> isPlaying := False \<rparr>"

definition card_click :: "crate \<Rightarrow> crate" where
  "card_click s = (if isPlaying s then stopPreview s else playPreview s)"

definition filter_click :: "crate \<Rightarrow> crate" where
  "filter_click s = s\<lparr> showGenreFilter := \<not> showGenreFilter s \<rparr>"

definition release_type_change :: "string \<Rightarrow> bool \<Rightarrow> crate \<Rightarrow> crate" where
  "release_type_change API_BASE b s = loadAlbums_begin API_BASE (s\<lparr> showOnlyAlbums := b \<rparr>)"

text \<open>
  Which of the template's top-level blocks is shown: the \<^verbatim>\<open>v-if\<close> chain on
  \<^verbatim>\<open>isLoading\<close>, \<^verbatim>\<open>error\<close> and \<^verbatim>\<open>albums.length > 0\<close>.
\<close>

datatype view = LoadingView | ErrorView string | CrateView | NoView

definition render :: "crate \<Rightarrow> view" where
  "render s =
     (if isLoading s then LoadingView
      else (case error s of
              Some msg \<Rightarrow> if msg \<noteq> [] then ErrorView msg
                          else if length (albums s) > 0 then CrateView else NoView
            | None \<Rightarrow> if length (albums s) > 0 then CrateView else NoView))"

definition onMounted :: "string \<Rightarrow> crate \<Rightarrow> crate" where
  "onMounted API_BASE s = loadAlbums_begin API_BASE (loadGenres_begin API_BASE s)"

section \<open>The component as a transition system\<close>

text \<open>
  Everything that can change the state while the component lives: a call of one of
  the script's functions from the template or the keyboard, the settling of a fetch,
  the firing of a timer, the end of the audio clip.
\<close>

datatype event =
    ToggleGenre int
  | ClearGenreFilter
  | LoadAlbums
  | AlbumsSettled "AlbumCollection settled"
  | GenresSettled "Genre list settled"
  | PlayPreview
  | StopPreview
  | GoToNext
  | GoToPrev
  | Keydown string
  | DragStart real
  | DragMove real
  | DragEnd
  | AudioEnded
  | CardClick
  | FilterClick
  | ReleaseTypeChange bool
  | TimerFired

fun step :: "string \<Rightarrow> event \<Rightarrow> crate \<Rightarrow> crate" where
  "step b (ToggleGenre g) s = toggleGenre g s"
| "step b ClearGenreFilter s = clearGenreFilter s"
| "step b LoadAlbums s = loadAlbums_begin b s"
| "step b (AlbumsSettled r) s = loadAlbums_resume r s"
| "step b (GenresSettled r) s = loadGenres_resume r s"
| "step b PlayPreview s = playPreview s"
| "step b StopPreview s = stopPreview s"
| "step b GoToNext s = goToNext s"
| "step b GoToPrev s = goToPrev s"
| "step b (Keydown k) s = handleKeydown k s"
| "step b (DragStart x) s = handleDragStart x s"
| "step b (DragMove x) s = handleDragMove x s"
| "step b DragEnd s = handleDragEnd s"
| "step b AudioEnded s = audio_ended s"
| "step b CardClick s = card_click s"
| "step b FilterClick s = filter_click s"
| "step b (ReleaseTypeChange v) s = release_type_change b v s"
| "step b TimerFired s = timer_fired s"

fun run :: "string \<Rightarrow> event list \<Rightarrow> crate \<Rightarrow> crate" where
  "run b [] s = s"
| "run b (e # es) s = run b es (step b e s)"

section \<open>Invariants\<close>

text \<open>The index points into the album list whenever the list is not empty.\<close>

definition index_inv :: "crate \<Rightarrow> bool" where
  "index_inv s = (albums s \<noteq> [] \<longrightarrow> 0 \<le> currentIndex s \<and> currentIndex s < int (length (albums s)))"

text \<open>The component shows playback only while an audio element is bound.\<close>

definition playing_bound :: "crate \<Rightarrow> bool" where
  "playing_bound s = (isPlaying s \<longrightarrow> audioRef s \<noteq> None)"

section \<open>Concrete states\<close>

text \<open>
  The component once mounted: the template ref holds the page's audio element, still
  unused, and the mount hook has issued both requests. \<open>default_API_BASE\<close> is the
  fallback of \<^verbatim>\<open>api.ts\<close>; the albums are the mock data of the component's tests.
\<close>

definition fresh_audio :: HTMLAudioElement where
  "fresh_audio = \<lparr> src = [], volume = 1, paused = True, currentTime = 0 \<rparr>"

definition default_API_BASE :: string where
  "default_API_BASE = ''http://localhost:8000''"

definition mounted :: "string \<Rightarrow> crate" where
  "mounted API_BASE = onMounted API_BASE (script_setup\<lparr> audioRef := Some fresh_audio \<rparr>)"

definition mockAlbum1 :: Album where
  "mockAlbum1 =
     \<lparr> album_id = 1, title = ''Test Album 1'', artist = ''Artist 1'',
       cover_url = ''https://example.com/cover1.jpg'',
       preview_url = ''https://example.com/preview1.mp3'',
       year = Some ''2024'', genre = Some ''Rock'', album_genres = None, deezer_id = 1,
       deezer_link = Some ''https://deezer.com/album/1'', nb_tracks = Some 10 \<rparr>"

definition mockAlbum2 :: Album where
  "mockAlbum2 =
     \<lparr> album_id = 2, title = ''Test Album 2'', artist = ''Artist 2'',
       cover_url = ''https://example.com/cover2.jpg'',
       preview_url = ''https://example.com/preview2.mp3'',
       year = Some ''2023'', genre = Some ''Jazz'', album_genres = None, deezer_id = 2,
       deezer_link = Some ''https://deezer.com/album/2'', nb_tracks = Some 8 \<rparr>"

definition mockAlbums :: AlbumCollection where
  "mockAlbums = \<lparr> data_albums = [mockAlbum1, mockAlbum2], data_total = 2 \<rparr>"

text \<open>The first crate has arrived; then the listener starts the first preview.\<close>

definition loaded_crate :: crate where
  "loaded_crate = loadAlbums_resume (Resolved mockAlbums) (mounted default_API_BASE)"

definition playing_crate :: crate where
  "playing_crate = playPreview loaded_crate"

text \<open>A second crate, arriving on a reload.\<close>

definition secondCrate :: AlbumCollection where
  "secondCrate = \<lparr> data_albums = [mockAlbum2], data_total = 1 \<rparr>"

text \<open>
  A reload overtaken by the keyboard: the first crate arrives, the listener asks for
  a new crate (\<^verbatim>\<open>loadAlbums\<close> runs up to its \<^verbatim>\<open>await\<close>), presses the space bar
  while the request is pending (the \<^verbatim>\<open>keydown\<close> listener sits on \<^verbatim>\<open>window\<close> and
  does not look at \<^verbatim>\<open>isLoading\<close>), and then the second crate arrives.
\<close>

definition race_events :: "event list" where
  "race_events =
     [AlbumsSettled (Resolved mockAlbums), LoadAlbums, Keydown '' '',
      AlbumsSettled (Resolved secondCrate)]"

text \<open>A drag that started at \<open>x = 200\<close> and has moved by \<open>x\<close>.\<close>

definition dragged :: "real \<Rightarrow> crate \<Rightarrow> crate" where
  "dragged x s = handleDragMove (200 + x) (handleDragStart 200 s)"

text \<open>The first preview, twelve seconds into the clip.\<close>

definition playing_at_12 :: crate where
  "playing_at_12 =
     playing_crate\<lparr> audioRef := map_option (\<lambda>a. a\<lparr> currentTime := 12 \<rparr>) (audioRef playing_crate) \<rparr>"

text \<open>The second album's preview, seven seconds into the clip.\<close>

definition second_at_7 :: crate where
  "second_at_7 =
     (playPreview (goToNext loaded_crate))
       \<lparr> audioRef := map_option (\<lambda>a. a\<lparr> currentTime := 7 \<rparr>)
                     (audioRef (playPreview (goToNext loaded_crate))) \<rparr>"

text \<open>
  The listener turns albums-only on, opens the filter panel and selects Rock (152)
  and then Jazz (129), or Jazz and then Rock.
\<close>

definition rock_then_jazz :: crate where
  "rock_then_jazz =
     run default_API_BASE
       [AlbumsSettled (Resolved mockAlbums), ReleaseTypeChange True,
        AlbumsSettled (Resolved mockAlbums), FilterClick, ToggleGenre 152, ToggleGenre 129]
       (mounted default_API_BASE)"

definition jazz_then_rock :: crate where
  "jazz_then_rock =
     run default_API_BASE
       [AlbumsSettled (Resolved mockAlbums), ReleaseTypeChange True,
        AlbumsSettled (Resolved mockAlbums), FilterClick, ToggleGenre 129, ToggleGenre 152]
       (mounted default_API_BASE)"

text \<open>The loaded crate with no audio element behind the template ref.\<close>

definition unbound_crate :: crate where
  "unbound_crate = loaded_crate\<lparr> audioRef := None \<rparr>"

section \<open>What the playback functions leave alone\<close>

lemma stopPreview_frame:
  "albums (stopPreview s) = albums s"
  "currentIndex (stopPreview s) = currentIndex s"
  "selectedGenres (stopPreview s) = selectedGenres s"
  "hasInteracted (stopPreview s) = hasInteracted s"
  "timers (stopPreview s) = timers s"
  "requests (stopPreview s) = requests s"
  "isDragging (stopPreview s) = isDragging s"
  "dragOffset (stopPreview s) = dragOffset s"
  "showOnlyAlbums (stopPreview s) = showOnlyAlbums s"
  "error (stopPreview s) = error s"
  by (simp_all add: stopPreview_def split: option.split)

lemma playPreview_frame:
  "albums (playPreview s) = albums s"
  "currentIndex (playPreview s) = currentIndex s"
  "selectedGenres (playPreview s) = selectedGenres s"
  "timers (playPreview s) = timers s"
  "requests (playPreview s) = requests s"
  by (simp_all add: playPreview_def split: option.split)

lemma stopPreview_not_playing:
  "playing_bound s \<Longrightarrow> \<not> isPlaying (stopPreview s)"
  by (auto simp: playing_bound_def stopPreview_def split: option.split)

lemma stopPreview_audio:
  "audioRef (stopPreview s) = Some a \<Longrightarrow> paused a \<and> currentTime a = 0"
  by (auto simp: stopPreview_def split: option.splits)

lemma stopPreview_audioRef:
  "audioRef (stopPreview s) = map_option (\<lambda>a. a\<lparr> paused := True, currentTime := 0 \<rparr>) (audioRef s)"
  by (cases "audioRef s") (simp_all add: stopPreview_def)

lemma goToNext_unfold:
  "goToNext s =
     (if currentIndex s < int (length (albums s)) - 1
      then (let s2 = (stopPreview s)\<lparr> currentIndex := currentIndex s + 1 \<rparr>
            in if hasInteracted s then s2\<lparr> timers := timers s @ [150] \<rparr> else s2)
      else s)"
  by (simp add: goToNext_def goToNext_trace_def Let_def stopPreview_frame)

lemma goToPrev_unfold:
  "goToPrev s =
     (if currentIndex s > 0
      then (let s2 = (stopPreview s)\<lparr> currentIndex := currentIndex s - 1 \<rparr>
            in if hasInteracted s then s2\<lparr> timers := timers s @ [150] \<rparr> else s2)
      else s)"
  by (simp add: goToPrev_def goToPrev_trace_def Let_def stopPreview_frame)

lemma currentAlbum_empty: "albums s = [] \<Longrightarrow> currentAlbum s = None"
  by (simp add: currentAlbum_def)

lemma stopPreview_isDragging_update:
  "stopPreview (s\<lparr> isDragging := b \<rparr>) = (stopPreview s)\<lparr> isDragging := b \<rparr>"
  by (simp add: stopPreview_def split: option.split)

lemma goToNext_isDragging_update:
  "goToNext (s\<lparr> isDragging := b \<rparr>) = (goToNext s)\<lparr> isDragging := b \<rparr>"
  by (simp add: goToNext_unfold Let_def stopPreview_isDragging_update)

lemma goToPrev_isDragging_update:
  "goToPrev (s\<lparr> isDragging := b \<rparr>) = (goToPrev s)\<lparr> isDragging := b \<rparr>"
  by (simp add: goToPrev_unfold Let_def stopPreview_isDragging_update)

section \<open>The invariants hold in every state the component reaches\<close>

subsection \<open>The index stays inside the album list\<close>

lemma goToNext_index_inv: "index_inv s \<Longrightarrow> index_inv (goToNext s)"
  by (auto simp: index_inv_def goToNext_unfold Let_def stopPreview_frame)

lemma goToPrev_index_inv: "index_inv s \<Longrightarrow> index_inv (goToPrev s)"
  by (auto simp: index_inv_def goToPrev_unfold Let_def stopPreview_frame)

lemma stopPreview_index_inv: "index_inv s \<Longrightarrow> index_inv (stopPreview s)"
  by (simp add: index_inv_def stopPreview_frame)

lemma playPreview_index_inv: "index_inv s \<Longrightarrow> index_inv (playPreview s)"
  by (simp add: index_inv_def playPreview_frame)

lemma toggleGenre_index_inv: "index_inv s \<Longrightarrow> index_inv (toggleGenre g s)"
  by (simp add: index_inv_def toggleGenre_def Let_def stopPreview_frame)

lemma loadAlbums_begin_index_inv: "index_inv s \<Longrightarrow> index_inv (loadAlbums_begin b s)"
  by (simp add: index_inv_def loadAlbums_begin_def Let_def stopPreview_frame)

lemma loadAlbums_resume_index_inv: "index_inv s \<Longrightarrow> index_inv (loadAlbums_resume r s)"
  by (cases r) (simp_all add: index_inv_def loadAlbums_resume_def)

lemma handleDragEnd_index_inv:
  assumes inv: "index_inv s"
  shows "index_inv (handleDragEnd s)"
proof -
  have a: "index_inv (s\<lparr> isDragging := False \<rparr>)"
    using inv by (simp add: index_inv_def)
  have b: "\<And>t. index_inv t \<Longrightarrow> index_inv (t\<lparr> dragOffset := 0 \<rparr>)"
    by (simp add: index_inv_def)
  show ?thesis
    using inv a b goToNext_index_inv [OF a] goToPrev_index_inv [OF a]
    by (simp add: handleDragEnd_def Let_def)
qed

lemma timer_fired_index_inv: "index_inv s \<Longrightarrow> index_inv (timer_fired s)"
  by (cases "timers s") (simp_all add: timer_fired_def index_inv_def playPreview_frame)

lemma step_index_inv:
  assumes inv: "index_inv s"
  shows "index_inv (step b e s)"
proof (cases e)
  case (Keydown k)
  then show ?thesis
    using inv
    by (simp add: handleKeydown_def goToNext_index_inv goToPrev_index_inv
        stopPreview_index_inv playPreview_index_inv)
next
  case (ReleaseTypeChange v)
  have "index_inv (s\<lparr> showOnlyAlbums := v \<rparr>)"
    using inv by (simp add: index_inv_def)
  then show ?thesis
    using ReleaseTypeChange by (simp add: release_type_change_def loadAlbums_begin_index_inv)
next
  case (GenresSettled r)
  then show ?thesis
    using inv by (cases r) (simp_all add: loadGenres_resume_def index_inv_def)
next
  case CardClick
  then show ?thesis
    using inv by (simp add: card_click_def stopPreview_index_inv playPreview_index_inv)
qed (use inv in \<open>simp_all add: goToNext_index_inv goToPrev_index_inv stopPreview_index_inv
      playPreview_index_inv toggleGenre_index_inv loadAlbums_begin_index_inv
      loadAlbums_resume_index_inv handleDragEnd_index_inv timer_fired_index_inv\<close>,
    simp_all add: index_inv_def clearGenreFilter_def handleDragStart_def handleDragMove_def
      audio_ended_def filter_click_def)

lemma run_index_inv: "index_inv s \<Longrightarrow> index_inv (run b es s)"
  by (induction es arbitrary: s) (simp_all add: step_index_inv)

lemma script_setup_index_inv: "index_inv script_setup"
  by (simp add: index_inv_def script_setup_def)

subsection \<open>Playback is shown only with an audio element bound\<close>

lemma stopPreview_playing_bound: "playing_bound s \<Longrightarrow> playing_bound (stopPreview s)"
  by (auto simp: playing_bound_def stopPreview_def split: option.split)

lemma playPreview_playing_bound: "playing_bound s \<Longrightarrow> playing_bound (playPreview s)"
  by (auto simp: playing_bound_def playPreview_def split: option.split)

lemma goToNext_playing_bound: "playing_bound s \<Longrightarrow> playing_bound (goToNext s)"
  using stopPreview_playing_bound [of s]
  by (simp add: playing_bound_def goToNext_unfold Let_def)

lemma goToPrev_playing_bound: "playing_bound s \<Longrightarrow> playing_bound (goToPrev s)"
  using stopPreview_playing_bound [of s]
  by (simp add: playing_bound_def goToPrev_unfold Let_def)

lemma toggleGenre_playing_bound: "playing_bound s \<Longrightarrow> playing_bound (toggleGenre g s)"
  using stopPreview_playing_bound [of s]
  by (simp add: playing_bound_def toggleGenre_def Let_def)

lemma loadAlbums_begin_playing_bound:
  "playing_bound s \<Longrightarrow> playing_bound (loadAlbums_begin b s)"
  using stopPreview_playing_bound [of s]
  by (simp add: playing_bound_def loadAlbums_begin_def Let_def)

lemma loadAlbums_resume_playing_bound:
  "playing_bound s \<Longrightarrow> playing_bound (loadAlbums_resume r s)"
  by (cases r) (simp_all add: playing_bound_def loadAlbums_resume_def)

lemma handleDragEnd_playing_bound:
  assumes inv: "playing_bound s"
  shows "playing_bound (handleDragEnd s)"
proof -
  have a: "playing_bound (s\<lparr> isDragging := False \<rparr>)"
    using inv by (simp add: playing_bound_def)
  have b: "\<And>t. playing_bound t \<Longrightarrow> playing_bound (t\<lparr> dragOffset := 0 \<rparr>)"
    by (simp add: playing_bound_def)
  show ?thesis
    using inv a b goToNext_playing_bound [OF a] goToPrev_playing_bound [OF a]
    by (simp add: handleDragEnd_def Let_def)
qed

lemma timer_fired_playing_bound: "playing_bound s \<Longrightarrow> playing_bound (timer_fired s)"
proof (cases "timers s")
  case Nil
  then show "playing_bound s \<Longrightarrow> ?thesis" by (simp add: timer_fired_def)
next
  case (Cons t ts)
  assume "playing_bound s"
  then have "playing_bound (s\<lparr> timers := ts \<rparr>)" by (simp add: playing_bound_def)
  then show ?thesis using Cons by (simp add: timer_fired_def playPreview_playing_bound)
qed

lemma step_playing_bound:
  assumes inv: "playing_bound s"
  shows "playing_bound (step b e s)"
proof (cases e)
  case (Keydown k)
  then show ?thesis
    using inv
    by (simp add: handleKeydown_def goToNext_playing_bound goToPrev_playing_bound
        stopPreview_playing_bound playPreview_playing_bound)
next
  case (ReleaseTypeChange v)
  have "playing_bound (s\<lparr> showOnlyAlbums := v \<rparr>)"
    using inv by (simp add: playing_bound_def)
  then show ?thesis
    using ReleaseTypeChange by (simp add: release_type_change_def loadAlbums_begin_playing_bound)
next
  case (GenresSettled r)
  then show ?thesis
    using inv by (cases r) (simp_all add: loadGenres_resume_def playing_bound_def)
next
  case CardClick
  then show ?thesis
    using inv by (simp add: card_click_def stopPreview_playing_bound playPreview_playing_bound)
qed (use inv in \<open>simp_all add: goToNext_playing_bound goToPrev_playing_bound
      stopPreview_playing_bound playPreview_playing_bound toggleGenre_playing_bound
      loadAlbums_begin_playing_bound loadAlbums_resume_playing_bound
      handleDragEnd_playing_bound timer_fired_playing_bound\<close>,
    simp_all add: playing_bound_def clearGenreFilter_def handleDragStart_def handleDragMove_def
      audio_ended_def filter_click_def)

lemma run_playing_bound: "playing_bound s \<Longrightarrow> playing_bound (run b es s)"
  by (induction es arbitrary: s) (simp_all add: step_playing_bound)

lemma script_setup_playing_bound: "playing_bound script_setup"
  by (simp add: playing_bound_def script_setup_def)

subsection \<open>The selection never holds a genre twice\<close>

lemma indexOf_range: "- 1 \<le> indexOf xs g \<and> indexOf xs g < int (length xs)"
  by (induction xs) (auto simp: Let_def)

lemma indexOf_absent: "(indexOf xs g = - 1) = (g \<notin> set xs)"
proof (induction xs)
  case Nil
  show ?case by simp
next
  case (Cons y ys)
  have "- 1 \<le> indexOf ys g" using indexOf_range [of ys g] by simp
  then show ?case using Cons by (auto simp: Let_def)
qed

lemma splice1_Cons:
  "0 \<le> i \<Longrightarrow> splice1 (y # ys) (i + 1) = y # splice1 ys i"
  by (simp add: splice1_def Let_def min_def nat_add_distrib)

lemma splice1_indexOf: "g \<in> set xs \<Longrightarrow> splice1 xs (indexOf xs g) = remove1 g xs"
proof (induction xs)
  case Nil
  then show ?case by simp
next
  case (Cons y ys)
  show ?case
  proof (cases "y = g")
    case True
    then show ?thesis by (simp add: splice1_def)
  next
    case False
    with Cons.prems have mem: "g \<in> set ys" by simp
    then have "indexOf ys g \<noteq> - 1" by (simp add: indexOf_absent)
    moreover have "- 1 \<le> indexOf ys g" using indexOf_range [of ys g] by simp
    ultimately have nn: "0 \<le> indexOf ys g" by arith
    show ?thesis
      using False mem nn Cons.IH \<open>indexOf ys g \<noteq> - 1\<close>
      by (simp add: Let_def splice1_Cons)
  qed
qed

lemma toggleGenre_selected:
  "selectedGenres (toggleGenre g s) =
     (if g \<in> set (selectedGenres s) then remove1 g (selectedGenres s) else selectedGenres s @ [g])"
  by (simp add: toggleGenre_def Let_def stopPreview_frame indexOf_absent splice1_indexOf)

lemma toggleGenre_distinct:
  "distinct (selectedGenres s) \<Longrightarrow> distinct (selectedGenres (toggleGenre g s))"
  by (simp add: toggleGenre_selected)

lemma step_distinct:
  assumes inv: "distinct (selectedGenres s)"
  shows "distinct (selectedGenres (step b e s))"
proof (cases e)
  case (AlbumsSettled r)
  then show ?thesis using inv by (cases r) (simp_all add: loadAlbums_resume_def)
next
  case (GenresSettled r)
  then show ?thesis using inv by (cases r) (simp_all add: loadGenres_resume_def)
next
  case TimerFired
  then show ?thesis
    using inv by (cases "timers s") (simp_all add: timer_fired_def playPreview_frame)
qed (use inv in \<open>simp_all add: toggleGenre_distinct clearGenreFilter_def loadAlbums_begin_def
      Let_def stopPreview_frame playPreview_frame goToNext_unfold goToPrev_unfold
      handleKeydown_def handleDragStart_def handleDragMove_def handleDragEnd_def
      audio_ended_def card_click_def filter_click_def release_type_change_def\<close>)

lemma run_distinct: "distinct (selectedGenres s) \<Longrightarrow> distinct (selectedGenres (run b es s))"
  by (induction es arbitrary: s) (simp_all add: step_distinct)

lemma script_setup_distinct: "distinct (selectedGenres script_setup)"
  by (simp add: script_setup_def)

section \<open>Evaluating the concrete states\<close>

lemmas show_number =
  number_to_string_def is_safe_integer_def decimal_def show_nat.simps digit_char_def

lemma number_to_string_10: "number_to_string 10 = Some ''10''"
  by (simp add: show_number)

lemma number_to_string_2: "number_to_string 2 = Some ''2''"
  by (simp add: show_number)

lemma number_to_string_unsafe: "number_to_string 18446744073709551616 = None"
  by (simp add: number_to_string_def is_safe_integer_def)

lemmas crate_eval =
  loaded_crate_def playing_crate_def mounted_def onMounted_def default_API_BASE_def
  script_setup_def fresh_audio_def mockAlbums_def
  loadAlbums_def loadAlbums_begin_def loadAlbums_resume_def loadGenres_begin_def
  loadGenres_resume_def fetchRandomAlbums_url_def fetchGenres_url_def
  number_to_string_def is_safe_integer_def decimal_def join_comma_def
  show_nat.simps digit_char_def
  stopPreview_def playPreview_def currentAlbum_def
  goToNext_def goToNext_trace_def goToPrev_def goToPrev_trace_def
  handleKeydown_def handleDragStart_def handleDragMove_def handleDragEnd_def
  toggleGenre_def clearGenreFilter_def splice1_def timer_fired_def
  audio_ended_def card_click_def filter_click_def release_type_change_def render_def Let_def

lemma loaded_crate_eval:
  "loaded_crate =
     \<lparr> albums = [mockAlbum1, mockAlbum2], currentIndex = 0, isLoading = False, error = None,
       audioRef = Some fresh_audio, isPlaying = False, isDragging = False, dragStartX = 0,
       dragOffset = 0, hasInteracted = False, genres = [], selectedGenres = [],
       showGenreFilter = False, showOnlyAlbums = False, timers = [],
       requests = [Some ''http://localhost:8000/genres'',
                   Some ''http://localhost:8000/albums/random?count=10''] \<rparr>"
  by (simp add: crate_eval)

lemmas op_eval =
  loaded_crate_eval playing_crate_def fresh_audio_def
  loadAlbums_def loadAlbums_begin_def loadAlbums_resume_def
  fetchRandomAlbums_url_def number_to_string_def is_safe_integer_def decimal_def
  join_comma_def show_nat.simps digit_char_def
  stopPreview_def playPreview_def currentAlbum_def
  goToNext_def goToNext_trace_def goToPrev_def goToPrev_trace_def
  handleDragStart_def handleDragMove_def handleDragEnd_def
  toggleGenre_def splice1_def render_def Let_def

section \<open>The claims\<close>

subsection \<open>C1: the index invariant\<close>

text \<open>
  C1. Every operation preserves the collection-index invariant: whenever the album
  list is not empty, \<open>0 \<le> currentIndex < length albums\<close>. Every transition of the
  component (\<open>step\<close>, for any event) keeps it, and so do \<open>goToNext\<close>, \<open>goToPrev\<close>,
  \<open>handleDragEnd\<close> and a whole \<open>loadAlbums\<close>, whether the fetch resolves or is
  rejected.
\<close>

theorem index_invariant_preserved:
  assumes "index_inv s"
  shows "index_inv (step b e s) \<and> index_inv (goToNext s) \<and> index_inv (goToPrev s)
       \<and> index_inv (handleDragEnd s) \<and> index_inv (loadAlbums b r s)"
  using assms
  by (simp add: step_index_inv goToNext_index_inv goToPrev_index_inv handleDragEnd_index_inv
      loadAlbums_def loadAlbums_begin_index_inv loadAlbums_resume_index_inv)

theorem index_invariant_preserved_witness:
  "index_inv loaded_crate
   \<and> index_inv (step default_API_BASE GoToNext loaded_crate)
   \<and> currentIndex (step default_API_BASE GoToNext loaded_crate) = 1
   \<and> index_inv (goToNext loaded_crate)
   \<and> index_inv (goToPrev loaded_crate)
   \<and> index_inv (handleDragEnd loaded_crate)
   \<and> index_inv (loadAlbums default_API_BASE (Resolved secondCrate) loaded_crate)"
proof -
  have h: "index_inv loaded_crate"
    by (simp add: index_inv_def loaded_crate_eval)
  have i: "currentIndex (step default_API_BASE GoToNext loaded_crate) = 1"
    by (simp add: op_eval)
  show ?thesis
    using h i index_invariant_preserved [OF h, of default_API_BASE GoToNext "Resolved secondCrate"]
    by simp
qed

subsection \<open>C2: next and prev\<close>

text \<open>
  C2. With \<open>n\<close> albums held, \<open>goToNext\<close> from an index \<open>i < n - 1\<close> sets the index to
  \<open>i + 1\<close> and from \<open>i = n - 1\<close> returns the state as it was; \<open>goToPrev\<close> from an index
  \<open>i > 0\<close> sets it to \<open>i - 1\<close> and from \<open>0\<close> returns the state as it was. The album
  list is the same after either.
\<close>

theorem goToNext_goToPrev_index:
  "(currentIndex s < int (length (albums s)) - 1 \<longrightarrow>
      currentIndex (goToNext s) = currentIndex s + 1 \<and> albums (goToNext s) = albums s)
   \<and> (currentIndex s = int (length (albums s)) - 1 \<longrightarrow> goToNext s = s)
   \<and> (0 < currentIndex s \<longrightarrow>
      currentIndex (goToPrev s) = currentIndex s - 1 \<and> albums (goToPrev s) = albums s)
   \<and> (currentIndex s = 0 \<longrightarrow> goToPrev s = s)"
  by (simp add: goToNext_unfold goToPrev_unfold Let_def stopPreview_frame)

theorem goToNext_goToPrev_index_witness:
  "currentIndex (goToNext loaded_crate) = 1
   \<and> goToPrev loaded_crate = loaded_crate
   \<and> goToNext (goToNext loaded_crate) = goToNext loaded_crate
   \<and> currentIndex (goToPrev (goToNext loaded_crate)) = 0"
proof -
  have a: "currentIndex loaded_crate = 0 \<and> length (albums loaded_crate) = 2"
    by (simp add: loaded_crate_eval)
  have b: "currentIndex (goToNext loaded_crate) = 1 \<and> length (albums (goToNext loaded_crate)) = 2"
    by (simp add: op_eval)
  show ?thesis
    using a b goToNext_goToPrev_index [of loaded_crate]
      goToNext_goToPrev_index [of "goToNext loaded_crate"]
    by simp
qed

subsection \<open>C3: stop before the index moves\<close>

text \<open>
  C3. In every run of \<open>goToNext\<close> or \<open>goToPrev\<close> that changes the index,
  \<open>stopPreview\<close> has taken effect before the index changes: in every state the
  function passes through in which the index differs from the one it started with,
  \<open>isPlaying\<close> is false and the template ref holds what it held at the call, the
  element now paused and at position \<open>0\<close>. The trace starts with the state of the
  call followed by the state \<open>stopPreview\<close> leaves, and ends in the state the
  function returns. The state of the call is any state in which playback is shown
  only with an audio element bound, which \<open>step_playing_bound\<close> shows to hold
  throughout the component's life.
\<close>

theorem stop_before_index_change:
  assumes "playing_bound s"
  shows "(\<forall>t \<in> set (goToNext_trace s). currentIndex t \<noteq> currentIndex s \<longrightarrow>
            \<not> isPlaying t
          \<and> audioRef t = map_option (\<lambda>a. a\<lparr> paused := True, currentTime := 0 \<rparr>) (audioRef s))
       \<and> (\<forall>t \<in> set (goToPrev_trace s). currentIndex t \<noteq> currentIndex s \<longrightarrow>
            \<not> isPlaying t
          \<and> audioRef t = map_option (\<lambda>a. a\<lparr> paused := True, currentTime := 0 \<rparr>) (audioRef s))
       \<and> (currentIndex (goToNext s) \<noteq> currentIndex s \<longrightarrow>
            take 2 (goToNext_trace s) = [s, stopPreview s] \<and> last (goToNext_trace s) = goToNext s)
       \<and> (currentIndex (goToPrev s) \<noteq> currentIndex s \<longrightarrow>
            take 2 (goToPrev_trace s) = [s, stopPreview s] \<and> last (goToPrev_trace s) = goToPrev s)"
proof -
  have np: "\<not> isPlaying (stopPreview s)"
    using assms by (rule stopPreview_not_playing)
  have au: "audioRef (stopPreview s)
              = map_option (\<lambda>a. a\<lparr> paused := True, currentTime := 0 \<rparr>) (audioRef s)"
    by (rule stopPreview_audioRef)
  have nxt: "\<forall>t \<in> set (goToNext_trace s). currentIndex t \<noteq> currentIndex s \<longrightarrow>
            \<not> isPlaying t
          \<and> audioRef t = map_option (\<lambda>a. a\<lparr> paused := True, currentTime := 0 \<rparr>) (audioRef s)"
    using np au by (auto simp: goToNext_trace_def Let_def stopPreview_frame)
  have prv: "\<forall>t \<in> set (goToPrev_trace s). currentIndex t \<noteq> currentIndex s \<longrightarrow>
            \<not> isPlaying t
          \<and> audioRef t = map_option (\<lambda>a. a\<lparr> paused := True, currentTime := 0 \<rparr>) (audioRef s)"
    using np au by (auto simp: goToPrev_trace_def Let_def stopPreview_frame)
  have n2: "currentIndex (goToNext s) \<noteq> currentIndex s \<longrightarrow>
            take 2 (goToNext_trace s) = [s, stopPreview s] \<and> last (goToNext_trace s) = goToNext s"
    by (simp add: goToNext_def goToNext_trace_def Let_def)
  have p2: "currentIndex (goToPrev s) \<noteq> currentIndex s \<longrightarrow>
            take 2 (goToPrev_trace s) = [s, stopPreview s] \<and> last (goToPrev_trace s) = goToPrev s"
    by (simp add: goToPrev_def goToPrev_trace_def Let_def)
  show ?thesis using nxt prv n2 p2 by blast
qed

theorem stop_before_index_change_witness:
  "playing_bound playing_at_12
   \<and> map (\<lambda>t. (currentIndex t, isPlaying t, audioRef t)) (goToNext_trace playing_at_12)
       = [(0, True, Some \<lparr> src = preview_url mockAlbum1, volume = 1 / 2, paused = False, currentTime = 12 \<rparr>),
          (0, False, Some \<lparr> src = preview_url mockAlbum1, volume = 1 / 2, paused = True, currentTime = 0 \<rparr>),
          (1, False, Some \<lparr> src = preview_url mockAlbum1, volume = 1 / 2, paused = True, currentTime = 0 \<rparr>),
          (1, False, Some \<lparr> src = preview_url mockAlbum1, volume = 1 / 2, paused = True, currentTime = 0 \<rparr>)]
   \<and> playing_bound second_at_7
   \<and> map (\<lambda>t. (currentIndex t, isPlaying t, audioRef t)) (goToPrev_trace second_at_7)
       = [(1, True, Some \<lparr> src = preview_url mockAlbum2, volume = 1 / 2, paused = False, currentTime = 7 \<rparr>),
          (1, False, Some \<lparr> src = preview_url mockAlbum2, volume = 1 / 2, paused = True, currentTime = 0 \<rparr>),
          (0, False, Some \<lparr> src = preview_url mockAlbum2, volume = 1 / 2, paused = True, currentTime = 0 \<rparr>),
          (0, False, Some \<lparr> src = preview_url mockAlbum2, volume = 1 / 2, paused = True, currentTime = 0 \<rparr>)]"
proof -
  have a: "playing_bound playing_at_12"
    by (simp add: playing_bound_def playing_at_12_def op_eval)
  have b: "playing_bound second_at_7"
    by (simp add: playing_bound_def second_at_7_def op_eval)
  have c: "map (\<lambda>t. (currentIndex t, isPlaying t, audioRef t)) (goToNext_trace playing_at_12)
       = [(0, True, Some \<lparr> src = preview_url mockAlbum1, volume = 1 / 2, paused = False, currentTime = 12 \<rparr>),
          (0, False, Some \<lparr> src = preview_url mockAlbum1, volume = 1 / 2, paused = True, currentTime = 0 \<rparr>),
          (1, False, Some \<lparr> src = preview_url mockAlbum1, volume = 1 / 2, paused = True, currentTime = 0 \<rparr>),
          (1, False, Some \<lparr> src = preview_url mockAlbum1, volume = 1 / 2, paused = True, currentTime = 0 \<rparr>)]"
    by (simp add: playing_at_12_def op_eval)
  have d: "map (\<lambda>t. (currentIndex t, isPlaying t, audioRef t)) (goToPrev_trace second_at_7)
       = [(1, True, Some \<lparr> src = preview_url mockAlbum2, volume = 1 / 2, paused = False, currentTime = 7 \<rparr>),
          (1, False, Some \<lparr> src = preview_url mockAlbum2, volume = 1 / 2, paused = True, currentTime = 0 \<rparr>),
          (0, False, Some \<lparr> src = preview_url mockAlbum2, volume = 1 / 2, paused = True, currentTime = 0 \<rparr>),
          (0, False, Some \<lparr> src = preview_url mockAlbum2, volume = 1 / 2, paused = True, currentTime = 0 \<rparr>)]"
    by (simp add: second_at_7_def op_eval)
  show ?thesis
    using a b c d stop_before_index_change [OF a] stop_before_index_change [OF b]
    by blast
qed

subsection \<open>C4: after a successful load\<close>

text \<open>
  What holds of a successful load. The part of \<open>loadAlbums\<close> after the \<^verbatim>\<open>await\<close>
  replaces the albums and sets the index to \<open>0\<close>, and does not touch \<open>isPlaying\<close>;
  when nothing is handled between the two parts, playback has been stopped by the
  first.
\<close>

lemma loadAlbums_resolved:
  "albums (loadAlbums_resume (Resolved d) t) = data_albums d
   \<and> currentIndex (loadAlbums_resume (Resolved d) t) = 0
   \<and> isPlaying (loadAlbums_resume (Resolved d) t) = isPlaying t"
  by (simp add: loadAlbums_resume_def)

lemma loadAlbums_resolved_uninterrupted:
  assumes "playing_bound s"
  shows "albums (loadAlbums b (Resolved d) s) = data_albums d
       \<and> currentIndex (loadAlbums b (Resolved d) s) = 0
       \<and> \<not> isPlaying (loadAlbums b (Resolved d) s)"
  using stopPreview_not_playing [OF assms]
  by (simp add: loadAlbums_def loadAlbums_resume_def loadAlbums_begin_def Let_def)

text \<open>
  C4. After every successful load the fetched albums are held, the index is \<open>0\<close> and
  playback is stopped. The code does not keep the last part: in the run
  \<open>race_events\<close> the space bar starts the preview of the first album of the old
  crate while the request is pending, and when the new crate arrives the component
  holds the new albums at index \<open>0\<close> and shows them, with \<open>isPlaying\<close> true and the
  audio element playing the old crate's preview. On the way, the crate is shown when
  the reload is asked for, and the loading block while the key is pressed.
\<close>

theorem reload_race_keeps_playing:
  "render (run default_API_BASE (take 1 race_events) (mounted default_API_BASE)) = CrateView
   \<and> render (run default_API_BASE (take 2 race_events) (mounted default_API_BASE)) = LoadingView
   \<and> isPlaying (run default_API_BASE (take 3 race_events) (mounted default_API_BASE))
   \<and> albums (run default_API_BASE race_events (mounted default_API_BASE)) = data_albums secondCrate
   \<and> currentIndex (run default_API_BASE race_events (mounted default_API_BASE)) = 0
   \<and> render (run default_API_BASE race_events (mounted default_API_BASE)) = CrateView
   \<and> isPlaying (run default_API_BASE race_events (mounted default_API_BASE))
   \<and> audioRef (run default_API_BASE race_events (mounted default_API_BASE))
       = Some \<lparr> src = preview_url mockAlbum1, volume = 1 / 2, paused = False, currentTime = 0 \<rparr>"
  by (simp add: race_events_def secondCrate_def crate_eval)

subsection \<open>C5: a failed load\<close>

text \<open>
  C5. A failed load leaves the album list and the index as they were: neither the
  part of \<open>loadAlbums\<close> before the \<^verbatim>\<open>await\<close> nor the part after a rejection changes
  them, and so neither does the whole. After the rejection the template shows the
  error block with the component's message, and the rejection issues no request and
  sets no timer: a whole failed load has issued exactly one request. A response that
  is not \<^verbatim>\<open>ok\<close> and a rejection of \<^verbatim>\<open>fetch\<close> both reject \<^verbatim>\<open>fetchRandomAlbums\<close>.
\<close>

theorem failed_load_keeps_collection:
  "albums (loadAlbums_begin b s) = albums s
   \<and> currentIndex (loadAlbums_begin b s) = currentIndex s
   \<and> albums (loadAlbums_resume (Rejected e) t) = albums t
   \<and> currentIndex (loadAlbums_resume (Rejected e) t) = currentIndex t
   \<and> albums (loadAlbums b (Rejected e) s) = albums s
   \<and> currentIndex (loadAlbums b (Rejected e) s) = currentIndex s
   \<and> render (loadAlbums_resume (Rejected e) t)
       = ErrorView ''Failed to load albums. Make sure the backend is running.''
   \<and> requests (loadAlbums_resume (Rejected e) t) = requests t
   \<and> timers (loadAlbums_resume (Rejected e) t) = timers t
   \<and> length (requests (loadAlbums b (Rejected e) s)) = Suc (length (requests s))
   \<and> fetchRandomAlbums_result (Resolved \<lparr> ok = False, json = d \<rparr>) = Rejected ''Failed to fetch albums''
   \<and> fetchRandomAlbums_result (Rejected e) = Rejected e"
  by (simp add: loadAlbums_def loadAlbums_begin_def loadAlbums_resume_def Let_def
      stopPreview_frame render_def fetchRandomAlbums_result_def)

theorem failed_load_keeps_collection_witness:
  "albums (loadAlbums default_API_BASE (Rejected ''Failed to fetch albums'') (goToNext loaded_crate))
     = [mockAlbum1, mockAlbum2]
   \<and> currentIndex (loadAlbums default_API_BASE (Rejected ''Failed to fetch albums'') (goToNext loaded_crate)) = 1
   \<and> render (loadAlbums default_API_BASE (Rejected ''Failed to fetch albums'') (goToNext loaded_crate))
     = ErrorView ''Failed to load albums. Make sure the backend is running.''"
  using failed_load_keeps_collection
    [of default_API_BASE "goToNext loaded_crate" "''Failed to fetch albums''"
        "loadAlbums_begin default_API_BASE (goToNext loaded_crate)"]
  by (simp add: op_eval)

subsection \<open>C6: the end of a drag\<close>

text \<open>
  C6. For a gesture in the dragging state, \<open>handleDragEnd\<close> does what \<open>goToPrev\<close>
  does when the offset is above \<open>80\<close>, what \<open>goToNext\<close> does when it is below \<open>-80\<close>,
  and no navigation for an offset from \<open>-80\<close> to \<open>80\<close>, both ends included; in every
  case it leaves \<open>isDragging\<close> false and the offset \<open>0\<close>.
\<close>

theorem handleDragEnd_threshold:
  assumes "isDragging s"
  shows "(dragOffset s > 80 \<longrightarrow>
            handleDragEnd s = (goToPrev s)\<lparr> isDragging := False, dragOffset := 0 \<rparr>)
       \<and> (dragOffset s < - 80 \<longrightarrow>
            handleDragEnd s = (goToNext s)\<lparr> isDragging := False, dragOffset := 0 \<rparr>)
       \<and> (- 80 \<le> dragOffset s \<and> dragOffset s \<le> 80 \<longrightarrow>
            handleDragEnd s = s\<lparr> isDragging := False, dragOffset := 0 \<rparr>)
       \<and> \<not> isDragging (handleDragEnd s) \<and> dragOffset (handleDragEnd s) = 0"
  using assms
  by (simp add: handleDragEnd_def Let_def goToNext_isDragging_update goToPrev_isDragging_update)

theorem handleDragEnd_threshold_witness:
  "isDragging (dragged 45 loaded_crate) \<and> dragOffset (dragged 45 loaded_crate) = 45
   \<and> handleDragEnd (dragged 45 loaded_crate) = loaded_crate\<lparr> dragStartX := 200 \<rparr>
   \<and> currentIndex (handleDragEnd (dragged (- 150) loaded_crate)) = 1
   \<and> currentIndex (handleDragEnd (dragged (- 80) loaded_crate)) = 0
   \<and> currentIndex (handleDragEnd (dragged 100 (goToNext loaded_crate))) = 0
   \<and> currentIndex (handleDragEnd (dragged 80 (goToNext loaded_crate))) = 1
   \<and> dragOffset (handleDragEnd (dragged (- 150) loaded_crate)) = 0
   \<and> \<not> isDragging (handleDragEnd (dragged (- 150) loaded_crate))"
  using handleDragEnd_threshold [of "dragged 45 loaded_crate"]
    handleDragEnd_threshold [of "dragged (- 150) loaded_crate"]
    handleDragEnd_threshold [of "dragged 100 (goToNext loaded_crate)"]
  by (simp add: dragged_def op_eval)

subsection \<open>C7: the query string of a load\<close>

lemma those_number_to_string:
  "\<forall>g \<in> set gs. is_safe_integer g \<Longrightarrow> those (map number_to_string gs) = Some (map decimal gs)"
  by (induction gs) (simp_all add: number_to_string_def)

lemma join_comma_safe:
  "\<forall>g \<in> set gs. is_safe_integer g \<Longrightarrow> join_comma gs = Some (join_strings '','' (map decimal gs))"
  by (simp add: join_comma_def those_number_to_string)

lemma decimal_129: "decimal 129 = ''129''"
  by (simp add: decimal_def show_nat.simps digit_char_def)

lemma decimal_152: "decimal 152 = ''152''"
  by (simp add: decimal_def show_nat.simps digit_char_def)

lemma loadAlbums_begin_request:
  "last (requests (loadAlbums_begin b s)) =
     fetchRandomAlbums_url b 10
       (if selectedGenres s = [] then None else Some (selectedGenres s))
       (if showOnlyAlbums s then Some 2 else None)"
  by (simp add: loadAlbums_begin_def Let_def stopPreview_frame)

lemma rock_then_jazz_eval:
  "selectedGenres rock_then_jazz = [152, 129] \<and> showOnlyAlbums rock_then_jazz"
  by (simp add: rock_then_jazz_def crate_eval)

lemma jazz_then_rock_eval:
  "selectedGenres jazz_then_rock = [129, 152] \<and> showOnlyAlbums jazz_then_rock"
  by (simp add: jazz_then_rock_def crate_eval)

text \<open>
  C7 as stated speaks of the selected genres as the set \<open>{129, 152}\<close>. The query
  string lists the ids in the order in which the selection array holds them, which is
  the order in which the listener selected them: with Rock (152) selected before Jazz
  (129) and albums-only on, the set is the same and the query string is
  \<^verbatim>\<open>count=10&genres=152,129&min_tracks=2\<close>.
\<close>

theorem load_query_string_counterexample:
  "set (selectedGenres rock_then_jazz) = {129, 152}
   \<and> showOnlyAlbums rock_then_jazz
   \<and> last (requests (loadAlbums_begin default_API_BASE rock_then_jazz))
       = Some ''http://localhost:8000/albums/random?count=10&genres=152,129&min_tracks=2''
   \<and> last (requests (loadAlbums_begin default_API_BASE rock_then_jazz))
       \<noteq> Some ''http://localhost:8000/albums/random?count=10&genres=129,152&min_tracks=2''"
proof -
  have sel: "selectedGenres rock_then_jazz = [152, 129]" and only: "showOnlyAlbums rock_then_jazz"
    using rock_then_jazz_eval by simp_all
  have url: "last (requests (loadAlbums_begin default_API_BASE rock_then_jazz))
       = Some ''http://localhost:8000/albums/random?count=10&genres=152,129&min_tracks=2''"
    by (simp add: loadAlbums_begin_request sel only fetchRandomAlbums_url_def join_comma_def
        show_number default_API_BASE_def)
  show ?thesis
    using sel only url by auto
qed

text \<open>
  C7, amended. The request a load issues carries \<open>count\<close>, then \<open>genres\<close>, then
  \<open>min_tracks\<close>. \<open>genres\<close> is left out when no genre is selected (and by
  \<open>fetchRandomAlbums\<close> for an empty array), \<open>min_tracks\<close> is left out when albums-only
  is off (and by \<open>fetchRandomAlbums\<close> for a value that is not positive). \<open>genres\<close>
  lists the selected ids, printed in decimal, in the order in which the selection
  array holds them: with albums-only on, the selection \<open>[129, 152]\<close> gives the query
  string \<^verbatim>\<open>count=10&genres=129,152&min_tracks=2\<close> and the selection \<open>[152, 129]\<close>
  gives \<^verbatim>\<open>count=10&genres=152,129&min_tracks=2\<close>. The genre ids are safe integers.
\<close>

theorem load_query_string:
  assumes "\<forall>g \<in> set (selectedGenres s). is_safe_integer g"
  shows "last (requests (loadAlbums_begin b s)) =
           Some (b @ ''/albums/random?count=10''
                   @ (if selectedGenres s = [] then []
                      else ''&genres='' @ join_strings '','' (map decimal (selectedGenres s)))
                   @ (if showOnlyAlbums s then ''&min_tracks=2'' else []))
       \<and> (selectedGenres s = [129, 152] \<and> showOnlyAlbums s \<longrightarrow>
            last (requests (loadAlbums_begin b s)) =
              Some (b @ ''/albums/random?count=10&genres=129,152&min_tracks=2''))
       \<and> (selectedGenres s = [152, 129] \<and> showOnlyAlbums s \<longrightarrow>
            last (requests (loadAlbums_begin b s)) =
              Some (b @ ''/albums/random?count=10&genres=152,129&min_tracks=2''))
       \<and> (m \<le> 0 \<longrightarrow> fetchRandomAlbums_url b c g (Some m) = fetchRandomAlbums_url b c g None)
       \<and> fetchRandomAlbums_url b c (Some []) mt = fetchRandomAlbums_url b c None mt"
proof -
  have general: "last (requests (loadAlbums_begin b s)) =
           Some (b @ ''/albums/random?count=10''
                   @ (if selectedGenres s = [] then []
                      else ''&genres='' @ join_strings '','' (map decimal (selectedGenres s)))
                   @ (if showOnlyAlbums s then ''&min_tracks=2'' else []))"
    using join_comma_safe [OF assms]
    by (simp add: loadAlbums_begin_request fetchRandomAlbums_url_def
        number_to_string_10 number_to_string_2)
  have jazz_first: "selectedGenres s = [129, 152] \<and> showOnlyAlbums s \<longrightarrow>
            last (requests (loadAlbums_begin b s)) =
              Some (b @ ''/albums/random?count=10&genres=129,152&min_tracks=2'')"
    by (simp add: general decimal_129 decimal_152)
  have rock_first: "selectedGenres s = [152, 129] \<and> showOnlyAlbums s \<longrightarrow>
            last (requests (loadAlbums_begin b s)) =
              Some (b @ ''/albums/random?count=10&genres=152,129&min_tracks=2'')"
    by (simp add: general decimal_129 decimal_152)
  have nonpos: "m \<le> 0 \<longrightarrow> fetchRandomAlbums_url b c g (Some m) = fetchRandomAlbums_url b c g None"
    by (simp add: fetchRandomAlbums_url_def)
  have empty: "fetchRandomAlbums_url b c (Some []) mt = fetchRandomAlbums_url b c None mt"
    by (simp add: fetchRandomAlbums_url_def)
  show ?thesis using general jazz_first rock_first nonpos empty by blast
qed

theorem load_query_string_witness:
  "selectedGenres jazz_then_rock = [129, 152] \<and> showOnlyAlbums jazz_then_rock
   \<and> last (requests (loadAlbums_begin default_API_BASE jazz_then_rock))
       = Some ''http://localhost:8000/albums/random?count=10&genres=129,152&min_tracks=2''
   \<and> selectedGenres loaded_crate = []
   \<and> last (requests (loadAlbums_begin default_API_BASE loaded_crate))
       = Some ''http://localhost:8000/albums/random?count=10''
   \<and> fetchRandomAlbums_url default_API_BASE 10 None (Some 0)
       = Some ''http://localhost:8000/albums/random?count=10''"
proof -
  have sel: "selectedGenres jazz_then_rock = [129, 152]" and only: "showOnlyAlbums jazz_then_rock"
    using jazz_then_rock_eval by simp_all
  have safe: "\<forall>g \<in> set (selectedGenres jazz_then_rock). is_safe_integer g"
    by (simp add: sel is_safe_integer_def)
  have none: "selectedGenres loaded_crate = [] \<and> \<not> showOnlyAlbums loaded_crate"
    by (simp add: loaded_crate_eval)
  have safe0: "\<forall>g \<in> set (selectedGenres loaded_crate). is_safe_integer g"
    by (simp add: none)
  have zero: "fetchRandomAlbums_url default_API_BASE 10 None None
       = Some ''http://localhost:8000/albums/random?count=10''"
    by (simp add: fetchRandomAlbums_url_def number_to_string_10 default_API_BASE_def)
  show ?thesis
    using sel only none zero
      load_query_string [OF safe, of default_API_BASE 0 10 None None]
      load_query_string [OF safe0, of default_API_BASE 0 10 None None]
    by (simp add: default_API_BASE_def decimal_129 decimal_152)
qed

subsection \<open>C8: toggling a genre twice\<close>

text \<open>
  C8. For every selection, \<open>toggleGenre\<close> called twice with the same genre id gives
  back a selection with the same members. A selection holds no genre twice
  (\<open>step_distinct\<close>: the component never builds one that does), and the result holds
  none twice either; when the genre was not selected, the array itself is as before.
\<close>

theorem toggleGenre_twice:
  assumes "distinct (selectedGenres s)"
  shows "set (selectedGenres (toggleGenre g (toggleGenre g s))) = set (selectedGenres s)
       \<and> distinct (selectedGenres (toggleGenre g (toggleGenre g s)))
       \<and> (g \<notin> set (selectedGenres s) \<longrightarrow>
            selectedGenres (toggleGenre g (toggleGenre g s)) = selectedGenres s)"
proof (cases "g \<in> set (selectedGenres s)")
  case True
  then show ?thesis
    using assms by (auto simp: toggleGenre_selected)
next
  case False
  then show ?thesis
    using assms by (simp add: toggleGenre_selected remove1_append)
qed

theorem toggleGenre_twice_witness:
  "distinct (selectedGenres (loaded_crate\<lparr> selectedGenres := [152, 129] \<rparr>))
   \<and> selectedGenres (toggleGenre 152 (loaded_crate\<lparr> selectedGenres := [152, 129] \<rparr>)) = [129]
   \<and> selectedGenres (toggleGenre 152 (toggleGenre 152 (loaded_crate\<lparr> selectedGenres := [152, 129] \<rparr>)))
       = [129, 152]
   \<and> set (selectedGenres (toggleGenre 152 (toggleGenre 152 (loaded_crate\<lparr> selectedGenres := [152, 129] \<rparr>))))
       = {152, 129}"
  using toggleGenre_twice [of "loaded_crate\<lparr> selectedGenres := [152, 129] \<rparr>" 152]
  by (simp add: op_eval)

subsection \<open>C9: stopPreview is idempotent\<close>

text \<open>
  C9. \<open>stopPreview\<close> called twice leaves the state that one call leaves. With no
  audio element bound it returns the state as it was; with one bound, the element is
  paused at position \<open>0\<close> and \<open>isPlaying\<close> is false; and a component that was stopped
  is stopped after the call.
\<close>

theorem stopPreview_idempotent:
  "stopPreview (stopPreview s) = stopPreview s
   \<and> (audioRef s = None \<longrightarrow> stopPreview s = s)
   \<and> (\<forall>a. audioRef s = Some a \<longrightarrow>
         audioRef (stopPreview s) = Some (a\<lparr> paused := True, currentTime := 0 \<rparr>)
         \<and> \<not> isPlaying (stopPreview s))
   \<and> (\<not> isPlaying s \<longrightarrow> \<not> isPlaying (stopPreview s))"
  by (cases "audioRef s") (simp_all add: stopPreview_def)

theorem stopPreview_idempotent_witness:
  "stopPreview (stopPreview playing_crate) = stopPreview playing_crate
   \<and> isPlaying playing_crate \<and> \<not> isPlaying (stopPreview playing_crate)
   \<and> audioRef (stopPreview playing_crate)
       = Some \<lparr> src = preview_url mockAlbum1, volume = 1 / 2, paused = True, currentTime = 0 \<rparr>
   \<and> audioRef script_setup = None \<and> stopPreview script_setup = script_setup
   \<and> \<not> isPlaying (stopPreview script_setup)"
  using stopPreview_idempotent [of playing_crate] stopPreview_idempotent [of script_setup]
  by (simp add: op_eval script_setup_def)

subsection \<open>C10: playPreview without an album or an audio element\<close>

text \<open>
  C10. When the album list is empty or no audio element is bound, \<open>playPreview\<close>
  returns the state as it was: \<open>isPlaying\<close> and \<open>hasInteracted\<close> keep their values,
  so that, if the listener had not interacted before, a later \<open>goToNext\<close> or
  \<open>goToPrev\<close> schedules no timer.
\<close>

theorem playPreview_noop:
  assumes "albums s = [] \<or> audioRef s = None"
  shows "playPreview s = s
       \<and> (\<not> hasInteracted s \<longrightarrow>
            timers (goToNext (playPreview s)) = timers s
          \<and> timers (goToPrev (playPreview s)) = timers s)"
proof -
  have "playPreview s = s"
    using assms by (auto simp: playPreview_def currentAlbum_empty split: option.split)
  then show ?thesis
    by (simp add: goToNext_unfold goToPrev_unfold Let_def stopPreview_frame)
qed

theorem playPreview_noop_witness:
  "albums script_setup = [] \<and> playPreview script_setup = script_setup
   \<and> audioRef unbound_crate = None \<and> albums unbound_crate = [mockAlbum1, mockAlbum2]
   \<and> playPreview unbound_crate = unbound_crate
   \<and> currentIndex (goToNext (playPreview unbound_crate)) = 1
   \<and> timers (goToNext (playPreview unbound_crate)) = []"
proof -
  have a: "albums script_setup = [] \<or> audioRef script_setup = None"
    by (simp add: script_setup_def)
  have b: "albums unbound_crate = [] \<or> audioRef unbound_crate = None"
    by (simp add: unbound_crate_def)
  show ?thesis
    using playPreview_noop [OF a] playPreview_noop [OF b]
    by (simp add: unbound_crate_def script_setup_def op_eval)
qed

end
